theory Spec2Isabelle
  imports Main
begin

section \<open>Python strings\<close>

text \<open>
  A Python \<^verbatim>\<open>str\<close> is a sequence of Unicode code points, so a string is a list of
  natural numbers (\<open>length\<close> counts code points, as \<^verbatim>\<open>len\<close> does). \<open>str\<close> embeds an
  ASCII literal of the source.
\<close>

type_synonym pystr = "nat list"

definition str :: "string \<Rightarrow> pystr" where
  "str cs = map of_char cs"

text \<open>
  \<^verbatim>\<open>str.isspace\<close> for one code point; \<^verbatim>\<open>str.strip()\<close> and the regular expression class
  \<^verbatim>\<open>\s\<close> both use this set.
\<close>

definition isspace :: "nat \<Rightarrow> bool" where
  "isspace c =
     (c \<in> set [0x09, 0x0A, 0x0B, 0x0C, 0x0D, 0x1C, 0x1D, 0x1E, 0x1F, 0x20, 0x85, 0xA0, 0x1680]
      \<or> (0x2000 \<le> c \<and> c \<le> 0x200A)
      \<or> c \<in> set [0x2028, 0x2029, 0x202F, 0x205F, 0x3000])"

definition py_strip :: "pystr \<Rightarrow> pystr" where
  "py_strip s = rev (dropWhile isspace (rev (dropWhile isspace s)))"

definition starts_with :: "pystr \<Rightarrow> pystr \<Rightarrow> bool" where
  "starts_with s p = (take (length p) s = p)"

text \<open>
  \<^verbatim>\<open>s.replace(old, new)\<close>: the occurrences of \<open>old\<close> are found from left to right and do
  not overlap; an empty \<open>old\<close> matches before every code point and at the end.
\<close>

fun py_replace :: "pystr \<Rightarrow> pystr \<Rightarrow> pystr \<Rightarrow> pystr" where
  "py_replace [] new s = new @ concat (map (\<lambda>c. c # new) s)"
| "py_replace (a # as) new [] = []"
| "py_replace (a # as) new (c # cs) =
     (if starts_with (c # cs) (a # as)
      then new @ py_replace (a # as) new (drop (length as) cs)
      else c # py_replace (a # as) new cs)"

text \<open>
  \<^verbatim>\<open>sub in s\<close> for strings: \<open>sub\<close> occurs in \<open>s\<close> as a contiguous run.
\<close>

fun contains :: "pystr \<Rightarrow> pystr \<Rightarrow> bool" where
  "contains [] sub = (sub = [])"
| "contains (c # cs) sub = (starts_with (c # cs) sub \<or> contains cs sub)"

subsection \<open>Case mapping\<close>

text \<open>
  \<^verbatim>\<open>str.lower\<close>, \<^verbatim>\<open>str.upper\<close> and \<^verbatim>\<open>str.title\<close> follow the Unicode character database
  of the interpreter. On ASCII they are the usual maps on letters; beyond ASCII the
  tables are a parameter of the model: a code point may map to several code points, and
  lowercasing may look at the context (the string and the position), as it does for the
  Greek capital sigma.
\<close>

record unicode_tables =
  lower_full :: "pystr \<Rightarrow> nat \<Rightarrow> pystr"
  upper_full :: "nat \<Rightarrow> pystr"
  title_full :: "nat \<Rightarrow> pystr"
  cased :: "nat \<Rightarrow> bool"

definition ascii_lower :: "nat \<Rightarrow> nat" where
  "ascii_lower c = (if 0x41 \<le> c \<and> c \<le> 0x5A then c + 0x20 else c)"

definition ascii_upper :: "nat \<Rightarrow> nat" where
  "ascii_upper c = (if 0x61 \<le> c \<and> c \<le> 0x7A then c - 0x20 else c)"


definition lower_at :: "unicode_tables \<Rightarrow> pystr \<Rightarrow> nat \<times> nat \<Rightarrow> pystr" where
  "lower_at U s ic =
     (case ic of (i, c) \<Rightarrow> if c < 0x80 then [ascii_lower c] else lower_full U s i)"

definition str_lower :: "unicode_tables \<Rightarrow> pystr \<Rightarrow> pystr" where
  "str_lower U s = concat (map (lower_at U s) (enumerate 0 s))"

definition upper_of :: "unicode_tables \<Rightarrow> nat \<Rightarrow> pystr" where
  "upper_of U c = (if c < 0x80 then [ascii_upper c] else upper_full U c)"

definition str_upper :: "unicode_tables \<Rightarrow> pystr \<Rightarrow> pystr" where
  "str_upper U s = concat (map (upper_of U) s)"





subsection \<open>Regular expressions\<close>

text \<open>
  Every pattern of the program is one character class, and every replacement is a
  plain string: \<^verbatim>\<open>re.sub(cls, repl, s)\<close> replaces each code point of \<open>s\<close> that the
  class matches by \<open>repl\<close>. In a pattern on \<^verbatim>\<open>str\<close>, a range is a range of code points
  and \<^verbatim>\<open>\s\<close> is Unicode whitespace.
\<close>

datatype class_item = Chr nat | Range nat nat | Whitespace

fun item_matches :: "class_item \<Rightarrow> nat \<Rightarrow> bool" where
  "item_matches (Chr a) c = (c = a)"
| "item_matches (Range lo hi) c = (lo \<le> c \<and> c \<le> hi)"
| "item_matches Whitespace c = isspace c"

datatype char_class = Class (negated: bool) (items: "class_item list")

definition class_matches :: "char_class \<Rightarrow> nat \<Rightarrow> bool" where
  "class_matches cls c = (list_ex (\<lambda>i. item_matches i c) (items cls) \<noteq> negated cls)"

definition re_sub :: "char_class \<Rightarrow> pystr \<Rightarrow> pystr \<Rightarrow> pystr" where
  "re_sub cls repl s = concat (map (\<lambda>c. if class_matches cls c then repl else [c]) s)"

section \<open>Python values\<close>

text \<open>
  The values \<^verbatim>\<open>json.loads\<close> builds. A float is a signed \<open>m * 2 ^ e\<close>, an infinity or a
  NaN; a dict lists its items in insertion order.
\<close>

datatype pyfloat = Finite bool nat int | Infinity bool | NaN

datatype pyval =
    PNone
  | PBool bool
  | PInt int
  | PFloat pyfloat
  | PStr pystr
  | PList "pyval list"
  | PDict "(pystr \<times> pyval) list"

fun nonzero :: "pyfloat \<Rightarrow> bool" where
  "nonzero (Finite sign m e) = (m \<noteq> 0)"
| "nonzero (Infinity sign) = True"
| "nonzero NaN = True"

text \<open>Truth value testing: \<^verbatim>\<open>not v\<close> is \<open>\<not> truthy v\<close>.\<close>

fun truthy :: "pyval \<Rightarrow> bool" where
  "truthy PNone = False"
| "truthy (PBool b) = b"
| "truthy (PInt i) = (i \<noteq> 0)"
| "truthy (PFloat f) = nonzero f"
| "truthy (PStr s) = (s \<noteq> [])"
| "truthy (PList xs) = (xs \<noteq> [])"
| "truthy (PDict kvs) = (kvs \<noteq> [])"

text \<open>
  The exceptions of the program: one raised by a library call (with its message, what
  \<^verbatim>\<open>str(e)\<close> gives), and the two the interpreter raises on a value of the wrong type.
\<close>

datatype pyexc = Raised pystr | TypeError pyval | AttributeError pyval

text \<open>\<^verbatim>\<open>data.get(key, default)\<close>: only a dict has the method.\<close>

fun py_get :: "pyval \<Rightarrow> pystr \<Rightarrow> pyval \<Rightarrow> pyexc + pyval" where
  "py_get (PDict kvs) key dflt =
     Inr (case map_of kvs key of None \<Rightarrow> dflt | Some v \<Rightarrow> v)"
| "py_get v key dflt = Inl (AttributeError v)"

section \<open>Model selector\<close>

text \<open>
  \<^verbatim>\<open>
  active_model = None
  try:
      for m in genai.list_models():
          if 'generateContent' in m.supported_generation_methods:
              if 'flash' in m.name:
                  active_model = m.name
                  break
      if not active_model: active_model = 'gemini-pro-vision'
      model = genai.GenerativeModel(active_model)
  except:
      model = genai.GenerativeModel('gemini-1.5-flash')
  \<close>
  \<^verbatim>\<open>list_models()\<close> is a generator: an enumeration is the models it yields and then how
  it ends, normally or with an exception (its message). The constructor
  \<^verbatim>\<open>GenerativeModel\<close> only records the name. A selection is the final value of
  \<^verbatim>\<open>active_model\<close> and the name the global \<^verbatim>\<open>model\<close> was built with.
\<close>

record model_info =
  name :: pystr
  supported_generation_methods :: "pystr list"

type_synonym enumeration = "model_info list \<times> pystr option"

record selection =
  active_model :: "pystr option"
  model :: pystr

text \<open>The loop: the value of \<^verbatim>\<open>active_model\<close> when the models yielded are exhausted.\<close>

fun scan_models :: "model_info list \<Rightarrow> pystr option" where
  "scan_models [] = None"
| "scan_models (m # ms) =
     (if str ''generateContent'' \<in> set (supported_generation_methods m)
      then (if contains (name m) (str ''flash'') then Some (name m) else scan_models ms)
      else scan_models ms)"

definition select_model :: "enumeration \<Rightarrow> selection" where
  "select_model e =
     (case scan_models (fst e) of
        Some found \<Rightarrow>
          (if found = [] then \<lparr> active_model = Some (str ''gemini-pro-vision''),
                                 model = str ''gemini-pro-vision'' \<rparr>
           else \<lparr> active_model = Some found, model = found \<rparr>)
      | None \<Rightarrow>
          (case snd e of
             None \<Rightarrow> \<lparr> active_model = Some (str ''gemini-pro-vision''),
                        model = str ''gemini-pro-vision'' \<rparr>
           | Some failure \<Rightarrow> \<lparr> active_model = None, model = str ''gemini-1.5-flash'' \<rparr>))"

text \<open>
  What the description asks of a model: content generation among its capabilities and
  the preferred marker in its name.
\<close>

definition preferred :: "model_info \<Rightarrow> bool" where
  "preferred m =
     (str ''generateContent'' \<in> set (supported_generation_methods m)
      \<and> contains (name m) (str ''flash''))"

section \<open>Term corrector\<close>


section \<open>Text normalizers\<close>

text \<open>
  \<^verbatim>\<open>
  def clean_text_value(text):
      if not text or text == "Not Detected": return ""
      text = re.sub(r'[<U+00AE><U+2122><U+211E><U+00A9>*]', '', text)
      return text.strip()
  \<close>
  The class holds the registered sign, the trade mark sign, the prescription take sign,
  the copyright sign and the asterisk. \<^verbatim>\<open>re.sub\<close> raises a \<^verbatim>\<open>TypeError\<close> on a value that
  is not a string.
\<close>

definition clean_text_value :: "pyval \<Rightarrow> pyexc + pystr" where
  "clean_text_value text =
     (if \<not> truthy text \<or> text = PStr (str ''Not Detected'') then Inr (str '''')
      else case text of
        PStr s \<Rightarrow>
          Inr (py_strip
            (re_sub (Class False [Chr 0xAE, Chr 0x2122, Chr 0x211E, Chr 0xA9, Chr 0x2A]) (str '''') s))
      | _ \<Rightarrow> Inl (TypeError text))"

text \<open>
  \<^verbatim>\<open>
  def clean_date(text):
      if not text or text == "Not Detected": return ""
      return re.sub(r'[^0-9/.-]', '', text)
  \<close>
\<close>

definition clean_date :: "pyval \<Rightarrow> pyexc + pystr" where
  "clean_date text =
     (if \<not> truthy text \<or> text = PStr (str ''Not Detected'') then Inr (str '''')
      else case text of
        PStr s \<Rightarrow>
          Inr (re_sub (Class True [Range 0x30 0x39, Chr 0x2F, Chr 0x2E, Chr 0x2D]) (str '''') s)
      | _ \<Rightarrow> Inl (TypeError text))"

text \<open>
  \<^verbatim>\<open>
  def clean_strength(text):
      if not text or text == "Not Detected": return ""
      text = text.lower().replace(" ", "").replace("o", "0").replace("l", "1")
      return text.upper()
  \<close>
  Only a string has \<^verbatim>\<open>lower\<close>.
\<close>

definition clean_strength :: "unicode_tables \<Rightarrow> pyval \<Rightarrow> pyexc + pystr" where
  "clean_strength U text =
     (if \<not> truthy text \<or> text = PStr (str ''Not Detected'') then Inr (str '''')
      else case text of
        PStr s \<Rightarrow>
          Inr (str_upper U
            (py_replace (str ''l'') (str ''1'')
              (py_replace (str ''o'') (str ''0'')
                (py_replace (str '' '') (str '''') (str_lower U s)))))
      | _ \<Rightarrow> Inl (AttributeError text))"

text \<open>
  The normalizers in the words of their description, on strings: the date keeps the
  digits and the separators; the strength is lowercased, loses its spaces, has its
  look-alike letters turned into digits and is uppercased.
\<close>

definition date_char :: "nat \<Rightarrow> bool" where
  "date_char c = ((0x30 \<le> c \<and> c \<le> 0x39) \<or> c = 0x2F \<or> c = 0x2E \<or> c = 0x2D)"

definition clean_date_spec :: "pystr \<Rightarrow> pystr" where
  "clean_date_spec s =
     (if s = [] \<or> s = str ''Not Detected'' then [] else filter date_char s)"

definition look_alike :: "nat \<Rightarrow> nat" where
  "look_alike c = (if c = 0x6F then 0x30 else if c = 0x6C then 0x31 else c)"

definition clean_strength_spec :: "unicode_tables \<Rightarrow> pystr \<Rightarrow> pystr" where
  "clean_strength_spec U s =
     (if s = [] \<or> s = str ''Not Detected'' then []
      else str_upper U (map look_alike (filter (\<lambda>c. c \<noteq> 0x20) (str_lower U s))))"

text \<open>
  An excerpt of the Unicode tables, for evaluating the model at U+FB02 (the ligature
  fl): it is a cased code point, lowercase already; its uppercase is the two letters FL
  and its titlecase the two letters Fl. The other entries are placeholders that nothing
  below evaluates.
\<close>

definition ligature_tables :: unicode_tables where
  "ligature_tables =
     \<lparr> lower_full = (\<lambda>s i. [s ! i]),
       upper_full = (\<lambda>c. if c = 0xFB02 then str ''FL'' else [c]),
       title_full = (\<lambda>c. if c = 0xFB02 then str ''Fl'' else [c]),
       cased = (\<lambda>c. c = 0xFB02) \<rparr>"

section \<open>Request handlers\<close>

text \<open>
  A request carries its uploaded files by field name. What a handler calls outside the
  program is a parameter: opening the uploaded bytes as an image
  (\<^verbatim>\<open>Image.open(io.BytesIO(file.read()))\<close>), \<^verbatim>\<open>ImageOps.exif_transpose\<close>, the text of the
  model's answer (\<^verbatim>\<open>model.generate_content([prompt, image]).text\<close>) and \<^verbatim>\<open>json.loads\<close>.
  Each returns its value or raises (\<open>Inl\<close>, with the exception's message). A handler
  returns its response with the list of the outside calls it made, in order.
\<close>

record request =
  files :: "(pystr \<times> nat list) list"

record 'img services =
  image_open :: "nat list \<Rightarrow> pystr + 'img"
  exif_transpose :: "'img \<Rightarrow> pystr + 'img"
  generate_content :: "pystr \<Rightarrow> 'img \<Rightarrow> pystr + pystr"
  json_loads :: "pystr \<Rightarrow> pystr + pyval"

datatype 'img call =
    Image_open "nat list"
  | Exif_transpose 'img
  | Generate_content pystr 'img
  | Json_loads pystr

text \<open>
  The body of a response is what \<^verbatim>\<open>jsonify\<close> is given; \<open>Error_of e\<close> is
  \<^verbatim>\<open>{"error": str(e)}\<close>.
\<close>

datatype body = Json pyval | Error_of pyexc

type_synonym response = "body \<times> nat"

definition no_image :: response where
  "no_image = (Json (PDict [(str ''error'', PStr (str ''No image''))]), 400)"

definition server_error :: "pyexc \<Rightarrow> response" where
  "server_error e = (Error_of e, 500)"

definition prescription_prompt :: pystr where
  \<open>prescription_prompt = str (''\<newline>''
     @ ''        You are an expert pharmacist AI. Analyze this handwritten prescription image.\<newline>''
     @ ''        Identify all medicines and their strengths.\<newline>''
     @ ''        Return strict JSON: { "medicines": [ { "name": "Name", "strength": "500mg" } ] }\<newline>''
     @ ''        '')\<close>

definition box_prompt :: pystr where
  "box_prompt = str (''\<newline>''
     @ ''        Analyze medicine box. Find: medicineName, strength, expiryDate, manufacturingDate.\<newline>''
     @ ''        Return JSON keys exactly as listed.\<newline>''
     @ ''        '')"

text \<open>
  \<^verbatim>\<open>clean_text = response.text.replace("```json", "").replace("```", "").strip()\<close>
\<close>

definition clean_text :: "pystr \<Rightarrow> pystr" where
  "clean_text text =
     py_strip (py_replace (str ''```'') (str '''') (py_replace (str ''```json'') (str '''') text))"

text \<open>
  \<^verbatim>\<open>
  def predict_prescription():
      try:
          if 'image' not in request.files: return jsonify({"error": "No image"}), 400
          file = request.files['image']
          image = Image.open(io.BytesIO(file.read()))
          image = ImageOps.exif_transpose(image)
          prompt = ...
          response = model.generate_content([prompt, image])
          clean_text = response.text.replace("```json", "").replace("```", "").strip()
          try:
              data = json.loads(clean_text)
              medicines_raw = data.get("medicines", [])
          except:
              medicines_raw = []
          return jsonify({"status": "success", "medicines": medicines_raw})
      except Exception as e:
          return jsonify({"error": str(e)}), 500
  \<close>
\<close>

definition predict_prescription :: "'img services \<Rightarrow> request \<Rightarrow> response \<times> 'img call list" where
  "predict_prescription sv req =
     (case map_of (files req) (str ''image'') of
        None \<Rightarrow> (no_image, [])
      | Some file \<Rightarrow>
         (case image_open sv file of
            Inl e \<Rightarrow> (server_error (Raised e), [Image_open file])
          | Inr opened \<Rightarrow>
             (case exif_transpose sv opened of
                Inl e \<Rightarrow> (server_error (Raised e), [Image_open file, Exif_transpose opened])
              | Inr img \<Rightarrow>
                 (case generate_content sv prescription_prompt img of
                    Inl e \<Rightarrow>
                      (server_error (Raised e),
                       [Image_open file, Exif_transpose opened,
                        Generate_content prescription_prompt img])
                  | Inr text \<Rightarrow>
                      (let medicines_raw =
                         (case json_loads sv (clean_text text) of
                            Inl e \<Rightarrow> PList []
                          | Inr data \<Rightarrow>
                              (case py_get data (str ''medicines'') (PList []) of
                                 Inl e \<Rightarrow> PList []
                               | Inr v \<Rightarrow> v))
                       in ((Json (PDict [(str ''status'', PStr (str ''success'')),
                                         (str ''medicines'', medicines_raw)]), 200),
                           [Image_open file, Exif_transpose opened,
                            Generate_content prescription_prompt img,
                            Json_loads (clean_text text)]))))))"

text \<open>
  The dict display of the box handler: its eight items are evaluated in order, each
  \<^verbatim>\<open>key: cleaner(data.get(source, ""))\<close>, and the first exception ends the evaluation.
  \<^verbatim>\<open>
  final_response = {
      "medicineName": clean_text_value(data.get("medicineName", "")),
      "strength": clean_text_value(data.get("strength", "")),
      "expiryDate": clean_date(data.get("expiryDate", "")),
      "manufacturingDate": clean_date(data.get("manufacturingDate", "")),
      "Medicine_Name": clean_text_value(data.get("medicineName", "")),
      "Strength": clean_text_value(data.get("strength", "")),
      "EXP_Date": clean_date(data.get("expiryDate", "")),
      "MFG_Date": clean_date(data.get("manufacturingDate", ""))
  }
  \<close>
\<close>

definition entry ::
  "pyval \<Rightarrow> pystr \<Rightarrow> (pyval \<Rightarrow> pyexc + pystr) \<Rightarrow> pystr \<Rightarrow> pyexc + pystr \<times> pystr" where
  "entry data key cleaner source =
     (case py_get data source (PStr (str '''')) of
        Inl e \<Rightarrow> Inl e
      | Inr raw \<Rightarrow> (case cleaner raw of Inl e \<Rightarrow> Inl e | Inr v \<Rightarrow> Inr (key, v)))"

fun in_order :: "(pyexc + 'a) list \<Rightarrow> pyexc + 'a list" where
  "in_order [] = Inr []"
| "in_order (x # xs) =
     (case x of
        Inl e \<Rightarrow> Inl e
      | Inr v \<Rightarrow> (case in_order xs of Inl e \<Rightarrow> Inl e | Inr vs \<Rightarrow> Inr (v # vs)))"

definition final_response :: "pyval \<Rightarrow> pyexc + (pystr \<times> pystr) list" where
  "final_response data =
     in_order
       [entry data (str ''medicineName'') clean_text_value (str ''medicineName''),
        entry data (str ''strength'') clean_text_value (str ''strength''),
        entry data (str ''expiryDate'') clean_date (str ''expiryDate''),
        entry data (str ''manufacturingDate'') clean_date (str ''manufacturingDate''),
        entry data (str ''Medicine_Name'') clean_text_value (str ''medicineName''),
        entry data (str ''Strength'') clean_text_value (str ''strength''),
        entry data (str ''EXP_Date'') clean_date (str ''expiryDate''),
        entry data (str ''MFG_Date'') clean_date (str ''manufacturingDate'')]"

text \<open>
  \<^verbatim>\<open>filtered_response = {k: v for k, v in final_response.items() if v and v != ""}\<close>
\<close>

definition filtered_response :: "(pystr \<times> pystr) list \<Rightarrow> (pystr \<times> pystr) list" where
  "filtered_response fr = filter (\<lambda>kv. snd kv \<noteq> [] \<and> snd kv \<noteq> str '''') fr"

definition as_dict :: "(pystr \<times> pystr) list \<Rightarrow> pyval" where
  "as_dict kvs = PDict (map (\<lambda>kv. (fst kv, PStr (snd kv))) kvs)"

text \<open>
  \<^verbatim>\<open>
  def predict_box():
      try:
          if 'image' not in request.files: return jsonify({"error": "No image"}), 400
          file = request.files['image']
          image = Image.open(io.BytesIO(file.read()))
          image = ImageOps.exif_transpose(image)
          prompt = ...
          response = model.generate_content([prompt, image])
          clean_text = response.text.replace("```json", "").replace("```", "").strip()
          data = json.loads(clean_text)
          final_response = { ... }
          filtered_response = {k: v for k, v in final_response.items() if v and v != ""}
          return jsonify({"status": "success", "fields": filtered_response,
                          "detections": filtered_response})
      except Exception as e:
          return jsonify({"error": str(e)}), 500
  \<close>
\<close>

definition predict_box :: "'img services \<Rightarrow> request \<Rightarrow> response \<times> 'img call list" where
  "predict_box sv req =
     (case map_of (files req) (str ''image'') of
        None \<Rightarrow> (no_image, [])
      | Some file \<Rightarrow>
         (case image_open sv file of
            Inl e \<Rightarrow> (server_error (Raised e), [Image_open file])
          | Inr opened \<Rightarrow>
             (case exif_transpose sv opened of
                Inl e \<Rightarrow> (server_error (Raised e), [Image_open file, Exif_transpose opened])
              | Inr img \<Rightarrow>
                 (case generate_content sv box_prompt img of
                    Inl e \<Rightarrow>
                      (server_error (Raised e),
                       [Image_open file, Exif_transpose opened, Generate_content box_prompt img])
                  | Inr text \<Rightarrow>
                      (let calls = [Image_open file, Exif_transpose opened,
                                    Generate_content box_prompt img,
                                    Json_loads (clean_text text)]
                       in (case json_loads sv (clean_text text) of
                             Inl e \<Rightarrow> (server_error (Raised e), calls)
                           | Inr data \<Rightarrow>
                               (case final_response data of
                                  Inl e \<Rightarrow> (server_error e, calls)
                                | Inr fr \<Rightarrow>
                                    ((Json (PDict
                                        [(str ''status'', PStr (str ''success'')),
                                         (str ''fields'', as_dict (filtered_response fr)),
                                         (str ''detections'', as_dict (filtered_response fr))]),
                                      200),
                                     calls))))))))"

text \<open>The value a JSON object body binds to a key, and the status of a response.\<close>

fun body_get :: "body \<Rightarrow> pystr \<Rightarrow> pyval option" where
  "body_get (Json (PDict kvs)) key = map_of kvs key"
| "body_get b key = None"

section \<open>Notions for the statements\<close>

text \<open>
  The model's answer to the image of a request: none when the request has no image, or
  when opening the image, transposing it or asking the model raises.
\<close>

definition model_answer :: "'img services \<Rightarrow> request \<Rightarrow> pystr \<Rightarrow> pystr option" where
  "model_answer sv req prompt =
     (case map_of (files req) (str ''image'') of
        None \<Rightarrow> None
      | Some file \<Rightarrow>
         (case image_open sv file of
            Inl e \<Rightarrow> None
          | Inr opened \<Rightarrow>
             (case exif_transpose sv opened of
                Inl e \<Rightarrow> None
              | Inr img \<Rightarrow>
                 (case generate_content sv prompt img of
                    Inl e \<Rightarrow> None
                  | Inr text \<Rightarrow> Some text))))"


text \<open>The response of the box handler once the dict display is evaluated.\<close>

definition box_success :: "(pystr \<times> pystr) list \<Rightarrow> response" where
  "box_success fr =
     (Json (PDict [(str ''status'', PStr (str ''success'')),
                   (str ''fields'', as_dict (filtered_response fr)),
                   (str ''detections'', as_dict (filtered_response fr))]), 200)"

section \<open>Notions for the proofs\<close>


text \<open>
  On an ASCII string the strength normalizer works code point by code point
  (\<open>strength_char\<close>), and what it returns is made of code points it leaves alone
  (\<open>settled\<close>). \<open>ticks\<close> counts the backquotes a string starts with.
\<close>

definition strength_char :: "nat \<Rightarrow> nat" where
  "strength_char c = ascii_upper (look_alike (ascii_lower c))"

definition settled :: "nat \<Rightarrow> bool" where
  "settled c =
     (c < 0x80 \<and> \<not> (0x61 \<le> c \<and> c \<le> 0x7A) \<and> c \<noteq> 0x20 \<and> c \<noteq> 0x4F \<and> c \<noteq> 0x4C)"

fun ticks :: "pystr \<Rightarrow> nat" where
  "ticks [] = 0"
| "ticks (c # cs) = (if c = 0x60 then Suc (ticks cs) else 0)"

section \<open>Sample data\<close>

text \<open>
  Two models of an enumeration, two fuzzy indexes (an empty one, and one that knows
  every term), a request whose image the model answers with a fenced JSON object, and
  an answer whose fences hold no JSON.
\<close>

definition flash_model :: model_info where
  "flash_model = \<lparr> name = str ''models/gemini-1.5-flash'',
                   supported_generation_methods = [str ''generateContent'', str ''countTokens''] \<rparr>"

definition embedding_model :: model_info where
  "embedding_model = \<lparr> name = str ''models/embedding-001'',
                       supported_generation_methods = [str ''embedContent''] \<rparr>"



definition sample_json :: pystr where
  \<open>sample_json = str (''{"medicines": [{"name": "Panadol", "strength": "500mg"}], ''
     @ ''"medicineName": "panadol", "strength": "5O0mg", "expiryDate": "Exp: 12/2025!!"}'')\<close>

definition sample_answer :: pystr where
  "sample_answer = str ''```json\<newline>'' @ sample_json @ str ''\<newline>```\<newline>''"

definition sample_data :: pyval where
  "sample_data =
     PDict [(str ''medicines'',
             PList [PDict [(str ''name'', PStr (str ''Panadol'')),
                           (str ''strength'', PStr (str ''500mg''))]]),
            (str ''medicineName'', PStr (str ''panadol'')),
            (str ''strength'', PStr (str ''5O0mg'')),
            (str ''expiryDate'', PStr (str ''Exp: 12/2025!!''))]"

definition sample_services :: "nat services" where
  "sample_services =
     \<lparr> image_open = (\<lambda>bytes. if bytes = [] then Inl (str ''cannot identify image file'')
                               else Inr (length bytes)),
       exif_transpose = (\<lambda>img. Inr img),
       generate_content = (\<lambda>prompt img. Inr sample_answer),
       json_loads = (\<lambda>s. if s = sample_json then Inr sample_data
                            else Inl (str ''Expecting value: line 1 column 1 (char 0)'')) \<rparr>"

definition garbled_inner :: pystr where
  "garbled_inner = str ''\<newline>{medicines: Panadol 500mg\<newline>''"

definition garbled_answer :: pystr where
  "garbled_answer = str ''```json'' @ garbled_inner @ str ''```'' @ str ''\<newline>''"

definition fenced_services :: "nat services" where
  "fenced_services = sample_services \<lparr> generate_content := (\<lambda>prompt img. Inr garbled_answer) \<rparr>"

definition sample_request :: request where
  "sample_request = \<lparr> files = [(str ''image'', [0xFF, 0xD8, 0xFF])] \<rparr>"

definition other_request :: request where
  "other_request = \<lparr> files = [(str ''photo'', [0xFF, 0xD8, 0xFF])] \<rparr>"

definition sample_body :: body where
  "sample_body =
     Json (PDict [(str ''status'', PStr (str ''success'')),
        (str ''fields'', PDict
           [(str ''medicineName'', PStr (str ''panadol'')), (str ''strength'', PStr (str ''5O0mg'')),
            (str ''expiryDate'', PStr (str ''12/2025'')),
            (str ''Medicine_Name'', PStr (str ''panadol'')), (str ''Strength'', PStr (str ''5O0mg'')),
            (str ''EXP_Date'', PStr (str ''12/2025''))]),
        (str ''detections'', PDict
           [(str ''medicineName'', PStr (str ''panadol'')), (str ''strength'', PStr (str ''5O0mg'')),
            (str ''expiryDate'', PStr (str ''12/2025'')),
            (str ''Medicine_Name'', PStr (str ''panadol'')), (str ''Strength'', PStr (str ''5O0mg'')),
            (str ''EXP_Date'', PStr (str ''12/2025''))])])"

section \<open>Lemmas\<close>

subsection \<open>Replacing and deleting code points\<close>

lemma replace_space: "py_replace [0x20] [] s = filter (\<lambda>c. c \<noteq> 0x20) s"
  by (induction s) (simp_all add: starts_with_def)

lemma replace_o: "py_replace [0x6F] [0x30] s = map (\<lambda>c. if c = 0x6F then 0x30 else c) s"
  by (induction s) (simp_all add: starts_with_def)

lemma replace_l: "py_replace [0x6C] [0x31] s = map (\<lambda>c. if c = 0x6C then 0x31 else c) s"
  by (induction s) (simp_all add: starts_with_def)

lemma replace_chain:
  "py_replace [0x6C] [0x31] (py_replace [0x6F] [0x30] (py_replace [0x20] [] s))
   = map look_alike (filter (\<lambda>c. c \<noteq> 0x20) s)"
  by (simp add: replace_space replace_o replace_l look_alike_def comp_def)

lemma re_sub_delete: "re_sub cls [] s = filter (\<lambda>c. \<not> class_matches cls c) s"
  by (induction s) (simp_all add: re_sub_def)

lemma date_class: 
  "class_matches (Class True [Range 0x30 0x39, Chr 0x2F, Chr 0x2E, Chr 0x2D]) c = (\<not> date_char c)"
  by (auto simp: class_matches_def date_char_def)

subsection \<open>Substrings and code fences\<close>

lemma starts_with_iff: "starts_with s p \<longleftrightarrow> (\<exists>q. s = p @ q)"
proof
  assume "starts_with s p"
  then have "s = p @ drop (length p) s"
    unfolding starts_with_def by (metis append_take_drop_id)
  then show "\<exists>q. s = p @ q" ..
next
  assume "\<exists>q. s = p @ q"
  then show "starts_with s p" by (auto simp: starts_with_def)
qed

lemma contains_iff: "contains s sub \<longleftrightarrow> (\<exists>p q. s = p @ sub @ q)"
proof (induction s)
  case Nil
  then show ?case by auto
next
  case (Cons c cs)
  show ?case
  proof
    assume "contains (c # cs) sub"
    then consider "starts_with (c # cs) sub" | "contains cs sub" by auto
    then show "\<exists>p q. c # cs = p @ sub @ q"
    proof cases
      case 1
      then obtain q where "c # cs = sub @ q" by (auto simp: starts_with_iff)
      then have "c # cs = [] @ sub @ q" by simp
      then show ?thesis by blast
    next
      case 2
      with Cons obtain p q where "cs = p @ sub @ q" by blast
      then have "c # cs = (c # p) @ sub @ q" by simp
      then show ?thesis by blast
    qed
  next
    assume "\<exists>p q. c # cs = p @ sub @ q"
    then obtain p q where pq: "c # cs = p @ sub @ q" by blast
    show "contains (c # cs) sub"
    proof (cases p)
      case Nil
      with pq have "starts_with (c # cs) sub" by (auto simp: starts_with_iff)
      then show ?thesis by simp
    next
      case (Cons a p')
      with pq have "cs = p' @ sub @ q" by simp
      with Cons.IH have "contains cs sub" by blast
      then show ?thesis by simp
    qed
  qed
qed

lemma py_strip_part: "\<exists>a b. s = a @ py_strip s @ b"
proof -
  let ?d = "dropWhile isspace s"
  have "rev (takeWhile isspace (rev ?d) @ dropWhile isspace (rev ?d)) = ?d"
    by (simp only: takeWhile_dropWhile_id rev_rev_ident)
  then have "rev (dropWhile isspace (rev ?d)) @ rev (takeWhile isspace (rev ?d)) = ?d"
    by (simp only: rev_append)
  then have "?d = py_strip s @ rev (takeWhile isspace (rev ?d))"
    by (simp only: py_strip_def)
  moreover have "s = takeWhile isspace s @ ?d" by simp
  ultimately have "s = takeWhile isspace s @ py_strip s @ rev (takeWhile isspace (rev ?d))"
    by simp
  then show ?thesis by blast
qed

lemma contains_py_strip: "contains (py_strip s) sub \<Longrightarrow> contains s sub"
proof -
  assume "contains (py_strip s) sub"
  then obtain p q where inner: "py_strip s = p @ sub @ q" by (auto simp: contains_iff)
  obtain a b where "s = a @ py_strip s @ b" using py_strip_part by blast
  with inner have "s = (a @ p) @ sub @ (q @ b)" by simp
  then show ?thesis unfolding contains_iff by blast
qed

lemma starts_with_fence: "starts_with s [0x60, 0x60, 0x60] \<longleftrightarrow> 3 \<le> ticks s"
proof (cases s)
  case Nil
  then show ?thesis by (simp add: starts_with_def)
next
  case s1: (Cons a s1)
  show ?thesis
  proof (cases s1)
    case Nil
    with s1 show ?thesis by (simp add: starts_with_def)
  next
    case s2: (Cons b s2)
    show ?thesis
    proof (cases s2)
      case Nil
      with s1 s2 show ?thesis by (simp add: starts_with_def)
    next
      case (Cons c s3)
      with s1 s2 show ?thesis by (simp add: starts_with_def)
    qed
  qed
qed

lemma replace_fence:
  "ticks (py_replace [0x60, 0x60, 0x60] [] s) = ticks s mod 3
   \<and> \<not> contains (py_replace [0x60, 0x60, 0x60] [] s) [0x60, 0x60, 0x60]"
proof (induction "length s" arbitrary: s rule: less_induct)
  case less
  show ?case
  proof (cases s)
    case Nil
    then show ?thesis by simp
  next
    case (Cons c cs)
    show ?thesis
    proof (cases "starts_with s [0x60, 0x60, 0x60]")
      case True
      then obtain q where q: "s = [0x60, 0x60, 0x60] @ q" by (auto simp: starts_with_iff)
      then have "length q < length s" by simp
      from less[OF this] q True show ?thesis by simp
    next
      case False
      then have few: "ticks s < 3" by (simp add: starts_with_fence)
      have "length cs < length s" using Cons by simp
      from less[OF this] have IH: "ticks (py_replace [0x60, 0x60, 0x60] [] cs) = ticks cs mod 3"
        "\<not> contains (py_replace [0x60, 0x60, 0x60] [] cs) [0x60, 0x60, 0x60]" by simp_all
      from False Cons have r: "py_replace [0x60, 0x60, 0x60] [] s
          = c # py_replace [0x60, 0x60, 0x60] [] cs" by simp
      have t: "ticks (c # py_replace [0x60, 0x60, 0x60] [] cs) = ticks s"
        using few Cons IH(1) by (simp split: if_splits)
      with few have "\<not> starts_with (c # py_replace [0x60, 0x60, 0x60] [] cs) [0x60, 0x60, 0x60]"
        by (simp add: starts_with_fence)
      with IH(2) t few show ?thesis unfolding r by simp
    qed
  qed
qed

lemma clean_text_no_fence: "\<not> contains (clean_text answer) (str ''```'')"
proof
  assume "contains (clean_text answer) (str ''```'')"
  then have "contains (py_replace (str ''```'') (str '''') (py_replace (str ''```json'') (str '''') answer))
     (str ''```'')"
    unfolding clean_text_def by (rule contains_py_strip)
  then show False using replace_fence by (simp add: str_def)
qed

lemma str_empty: "str '''' = []"
  by (simp add: str_def)

lemma starts_with_Cons: "starts_with (c # s) (a # p) \<longleftrightarrow> c = a \<and> starts_with s p"
  by (simp add: starts_with_def)

lemma starts_with_Nil: "starts_with [] (a # p) = False" "starts_with s [] = True"
  by (simp_all add: starts_with_def)

lemma py_replace_absent: "\<not> contains s (a # as) \<Longrightarrow> py_replace (a # as) new s = s"
  by (induction s) simp_all

lemma fence_in_json_fence: "contains s (str ''```json'') \<Longrightarrow> contains s (str ''```'')"
proof -
  assume "contains s (str ''```json'')"
  then obtain p q where "s = p @ str ''```json'' @ q" by (auto simp: contains_iff)
  then have "s = p @ str ''```'' @ (str ''json'' @ q)" by (simp add: str_def)
  then show ?thesis unfolding contains_iff by blast
qed

lemma clean_text_plain:
  assumes "\<not> contains s (str ''```'')"
  shows "clean_text s = py_strip s"
proof -
  from assms have "\<not> contains s (str ''```json'')" using fence_in_json_fence by blast
  with assms show ?thesis
    unfolding clean_text_def by (simp add: str_def py_replace_absent)
qed

lemma py_replace_skip:
  "0x60 \<notin> set pre \<Longrightarrow> py_replace (0x60 # as) new (pre @ s) = pre @ py_replace (0x60 # as) new s"
  by (induction pre) (auto simp: starts_with_Cons)

lemma py_replace_unticked: "0x60 \<notin> set s \<Longrightarrow> py_replace (0x60 # as) new s = s"
  using py_replace_skip[of s as new "[]"] by simp

lemma json_fence_kept:
  assumes "0x60 \<notin> set post" "\<not> starts_with post (str ''json'')"
  shows "py_replace (str ''```json'') [] (str ''```'' @ post) = str ''```'' @ post"
proof (cases post)
  case Nil
  then show ?thesis by (simp add: str_def starts_with_Cons starts_with_Nil)
next
  case (Cons p ps)
  with assms(1) have "p \<noteq> 0x60" by auto
  moreover from assms(1) have "py_replace (str ''```json'') [] post = post"
    by (simp add: str_def py_replace_unticked)
  ultimately show ?thesis
    using assms(2) Cons by (auto simp: str_def starts_with_Cons starts_with_Nil)
qed

lemma clean_text_fenced:
  assumes "0x60 \<notin> set pre" "0x60 \<notin> set inner" "0x60 \<notin> set post"
    and "\<not> starts_with post (str ''json'')"
  shows "clean_text (pre @ str ''```json'' @ inner @ str ''```'' @ post)
           = py_strip (pre @ inner @ post)"
proof -
  have "py_replace (str ''```json'') [] (pre @ str ''```json'' @ inner @ str ''```'' @ post)
          = pre @ py_replace (str ''```json'') [] (str ''```json'' @ inner @ str ''```'' @ post)"
    using py_replace_skip[OF assms(1)] by (simp add: str_def)
  also have "py_replace (str ''```json'') [] (str ''```json'' @ inner @ str ''```'' @ post)
          = py_replace (str ''```json'') [] (inner @ str ''```'' @ post)"
    by (simp add: str_def starts_with_Cons starts_with_Nil)
  also have "\<dots> = inner @ py_replace (str ''```json'') [] (str ''```'' @ post)"
    using py_replace_skip[OF assms(2)] by (simp add: str_def)
  also have "\<dots> = inner @ str ''```'' @ post"
    by (simp add: json_fence_kept[OF assms(3,4)])
  finally have first: "py_replace (str ''```json'') [] (pre @ str ''```json'' @ inner @ str ''```'' @ post)
          = (pre @ inner) @ str ''```'' @ post" by simp
  have "0x60 \<notin> set (pre @ inner)" using assms(1,2) by simp
  from py_replace_skip[OF this]
  have "py_replace (str ''```'') [] ((pre @ inner) @ str ''```'' @ post)
          = (pre @ inner) @ py_replace (str ''```'') [] (str ''```'' @ post)"
    by (simp add: str_def)
  also have "py_replace (str ''```'') [] (str ''```'' @ post) = py_replace (str ''```'') [] post"
    by (simp add: str_def starts_with_Cons starts_with_Nil)
  also have "\<dots> = post"
    using assms(3) by (simp add: str_def py_replace_unticked)
  finally have second: "py_replace (str ''```'') [] ((pre @ inner) @ str ''```'' @ post)
          = (pre @ inner) @ post" .
  show ?thesis unfolding clean_text_def str_empty first second by simp
qed

subsection \<open>The normalizers on strings\<close>

lemma clean_strength_str: "clean_strength U (PStr s) = Inr (clean_strength_spec U s)"
  by (simp add: clean_strength_def clean_strength_spec_def replace_chain str_def)

lemma clean_date_str: "clean_date (PStr s) = Inr (clean_date_spec s)"
  by (simp add: clean_date_def clean_date_spec_def re_sub_delete date_class str_def)

lemma clean_date_example: "clean_date_spec (str ''Exp: 12/2025!!'') = str ''12/2025''"
  by (simp add: clean_date_spec_def date_char_def str_def)

lemma strength_example_space: "clean_strength_spec U (str ''500 MG'') = str ''500MG''"
  by (simp add: clean_strength_spec_def str_def str_lower_def str_upper_def lower_at_def upper_of_def
      ascii_lower_def ascii_upper_def look_alike_def)

lemma strength_example_letter: "clean_strength_spec U (str ''5O0mg'') = str ''500MG''"
  by (simp add: clean_strength_spec_def str_def str_lower_def str_upper_def lower_at_def upper_of_def
      ascii_lower_def ascii_upper_def look_alike_def)

lemma ligature_uppercased: "clean_strength ligature_tables (PStr [0xFB02]) = Inr (str ''FL'')"
  by (simp add: clean_strength_def str_def str_lower_def str_upper_def lower_at_def upper_of_def
      ascii_lower_def ascii_upper_def starts_with_def ligature_tables_def)

lemma ligature_result_changes: "clean_strength ligature_tables (PStr (str ''FL'')) = Inr (str ''F1'')"
  by (simp add: clean_strength_def str_def str_lower_def str_upper_def lower_at_def upper_of_def
      ascii_lower_def ascii_upper_def starts_with_def ligature_tables_def)

subsection \<open>ASCII strings\<close>

lemma enumerate_map_snd: "map (\<lambda>ic. f (snd ic)) (enumerate n s) = map f s"
  by (induction s arbitrary: n) simp_all

lemma str_lower_ascii:
  assumes "list_all (\<lambda>c. c < 0x80) s"
  shows "str_lower U s = map ascii_lower s"
proof -
  have "map (lower_at U s) (enumerate 0 s) = map (\<lambda>ic. [ascii_lower (snd ic)]) (enumerate 0 s)"
  proof (rule map_cong[OF refl])
    fix ic assume "ic \<in> set (enumerate 0 s)"
    then have "fst ic < length s" "s ! fst ic = snd ic" by (simp_all add: in_set_enumerate_eq)
    then have "snd ic \<in> set s" using nth_mem by metis
    with assms have "snd ic < 0x80" by (simp add: list_all_iff)
    then show "lower_at U s ic = [ascii_lower (snd ic)]"
      by (cases ic) (simp add: lower_at_def)
  qed
  also have "\<dots> = map (\<lambda>c. [ascii_lower c]) s" by (rule enumerate_map_snd)
  finally show ?thesis by (simp add: str_lower_def)
qed

lemma str_upper_ascii:
  assumes "list_all (\<lambda>c. c < 0x80) s"
  shows "str_upper U s = map ascii_upper s"
proof -
  have h: "map (upper_of U) s = map (\<lambda>c. [ascii_upper c]) s"
  proof (rule map_cong[OF refl])
    fix c assume "c \<in> set s"
    with assms have "c < 0x80" by (simp add: list_all_iff)
    then show "upper_of U c = [ascii_upper c]" by (simp add: upper_of_def)
  qed
  show ?thesis unfolding str_upper_def h by (rule concat_map_singleton)
qed

lemma filter_space_lower:
  "filter (\<lambda>c. c \<noteq> 0x20) (map ascii_lower s) = map ascii_lower (filter (\<lambda>c. c \<noteq> 0x20) s)"
  by (induction s) (simp_all add: ascii_lower_def)

lemma look_alike_ascii: "c < 0x80 \<Longrightarrow> look_alike c < 0x80"
  by (simp add: look_alike_def)

lemma ascii_lower_ascii: "c < 0x80 \<Longrightarrow> ascii_lower c < 0x80"
  by (simp add: ascii_lower_def)

lemma clean_strength_spec_ascii:
  assumes "list_all (\<lambda>c. c < 0x80) s" "s \<noteq> []" "s \<noteq> str ''Not Detected''"
  shows "clean_strength_spec U s = map strength_char (filter (\<lambda>c. c \<noteq> 0x20) s)"
proof -
  let ?t = "map look_alike (filter (\<lambda>c. c \<noteq> 0x20) (map ascii_lower s))"
  have "list_all (\<lambda>c. c < 0x80) ?t"
    using assms(1) by (auto simp: list_all_iff intro!: look_alike_ascii ascii_lower_ascii)
  then have "str_upper U ?t = map ascii_upper ?t" by (rule str_upper_ascii)
  then show ?thesis
    using assms
    by (simp add: clean_strength_spec_def str_lower_ascii filter_space_lower strength_char_def
        comp_def)
qed

lemma strength_char_settled: "c < 0x80 \<Longrightarrow> c \<noteq> 0x20 \<Longrightarrow> settled (strength_char c)"
  unfolding settled_def strength_char_def ascii_upper_def look_alike_def ascii_lower_def
  by (simp split: if_splits) arith

lemma strength_char_fixed: "settled c \<Longrightarrow> strength_char c = c"
  unfolding settled_def strength_char_def ascii_upper_def look_alike_def ascii_lower_def
  by (simp split: if_splits) arith

lemma clean_strength_spec_settled:
  assumes "list_all (\<lambda>c. c < 0x80) s"
  shows "list_all settled (clean_strength_spec U s)"
proof (cases "s = [] \<or> s = str ''Not Detected''")
  case True
  then show ?thesis by (auto simp: clean_strength_spec_def)
next
  case False
  then have "clean_strength_spec U s = map strength_char (filter (\<lambda>c. c \<noteq> 0x20) s)"
    using assms by (simp add: clean_strength_spec_ascii)
  then show ?thesis
    using assms by (simp add: list_all_iff strength_char_settled)
qed

lemma settled_fixed:
  assumes "list_all settled r"
  shows "clean_strength_spec U r = r"
proof (cases "r = []")
  case True
  then show ?thesis by (simp add: clean_strength_spec_def)
next
  case False
  have "0x6F \<in> set (str ''Not Detected'')" by (simp add: str_def)
  moreover have "0x6F \<notin> set r"
  proof
    assume "0x6F \<in> set r"
    with assms have "settled 0x6F" by (simp add: list_all_iff)
    then show False by (simp add: settled_def)
  qed
  ultimately have ns: "r \<noteq> str ''Not Detected''" by metis
  have asc: "list_all (\<lambda>c. c < 0x80) r"
    using assms by (simp add: list_all_iff settled_def)
  have "filter (\<lambda>c. c \<noteq> 0x20) r = r"
    using assms by (simp add: list_all_iff settled_def)
  moreover have "map strength_char r = r"
    using assms by (simp add: list_all_iff strength_char_fixed map_idI)
  ultimately show ?thesis using clean_strength_spec_ascii[OF asc False ns] by simp
qed

subsection \<open>Model selector\<close>

lemma scan_models_find: "scan_models ms = map_option name (find preferred ms)"
  by (induction ms) (simp_all add: preferred_def)

lemma contains_nonempty: "contains s sub \<Longrightarrow> sub \<noteq> [] \<Longrightarrow> s \<noteq> []"
  by (cases s) simp_all

lemma preferred_named: "preferred m \<Longrightarrow> name m \<noteq> []"
  unfolding preferred_def by (rule contains_nonempty[of _ "str ''flash''"]) (simp_all add: str_def)

subsection \<open>Handlers\<close>

lemma model_answer_Some:
  assumes "model_answer sv req prompt = Some text"
  shows "\<exists>file opened img. map_of (files req) (str ''image'') = Some file
           \<and> image_open sv file = Inr opened \<and> exif_transpose sv opened = Inr img
           \<and> generate_content sv prompt img = Inr text"
  using assms unfolding model_answer_def
  by (auto split: option.splits sum.splits)

lemma predict_prescription_answered:
  assumes "model_answer sv req prescription_prompt = Some answer"
  shows "fst (predict_prescription sv req) =
           (Json (PDict [(str ''status'', PStr (str ''success'')),
                         (str ''medicines'',
                          (case json_loads sv (clean_text answer) of
                             Inl e \<Rightarrow> PList []
                           | Inr data \<Rightarrow>
                               (case py_get data (str ''medicines'') (PList []) of
                                  Inl e \<Rightarrow> PList []
                                | Inr v \<Rightarrow> v)))]), 200)
         \<and> last (snd (predict_prescription sv req)) = Json_loads (clean_text answer)"
proof -
  from model_answer_Some[OF assms] obtain upload opened img where
    "map_of (files req) (str ''image'') = Some upload" "image_open sv upload = Inr opened"
    "exif_transpose sv opened = Inr img" "generate_content sv prescription_prompt img = Inr answer"
    by blast
  then show ?thesis
    by (simp add: predict_prescription_def Let_def)
qed

lemma predict_box_answered:
  assumes "model_answer sv req box_prompt = Some text"
  shows "fst (predict_box sv req) =
           (case json_loads sv (clean_text text) of
              Inl e \<Rightarrow> server_error (Raised e)
            | Inr data \<Rightarrow>
                (case final_response data of
                   Inl e \<Rightarrow> server_error e
                 | Inr fr \<Rightarrow> box_success fr))"
proof -
  from model_answer_Some[OF assms] obtain upload opened img where
    "map_of (files req) (str ''image'') = Some upload" "image_open sv upload = Inr opened"
    "exif_transpose sv opened = Inr img" "generate_content sv box_prompt img = Inr text"
    by blast
  then show ?thesis
    by (simp add: predict_box_def box_success_def Let_def split: sum.splits)
qed

lemma predict_box_unanswered:
  assumes "model_answer sv req box_prompt = None"
  shows "snd (fst (predict_box sv req)) \<noteq> 200"
  using assms unfolding model_answer_def predict_box_def
  by (auto simp: no_image_def server_error_def split: option.splits sum.splits)

lemma predict_box_200:
  assumes "fst (predict_box sv req) = (b, 200)"
  shows "\<exists>text data fr. model_answer sv req box_prompt = Some text
           \<and> json_loads sv (clean_text text) = Inr data
           \<and> final_response data = Inr fr \<and> (b, 200) = box_success fr"
proof (cases "model_answer sv req box_prompt")
  case None
  from predict_box_unanswered[OF this] assms show ?thesis by simp
next
  case (Some answer)
  show ?thesis
  proof (cases "json_loads sv (clean_text answer)")
    case (Inl e)
    with predict_box_answered[OF Some] assms show ?thesis by (simp add: server_error_def)
  next
    case (Inr data)
    show ?thesis
    proof (cases "final_response data")
      case (Inl e)
      with predict_box_answered[OF Some] Inr assms show ?thesis by (simp add: server_error_def)
    next
      case fr: (Inr fr)
      with predict_box_answered[OF Some] Inr assms have "(b, 200) = box_success fr" by simp
      with Some Inr fr show ?thesis by blast
    qed
  qed
qed








lemma box_success_body:
  assumes "(b, 200) = box_success fr"
  shows "body_get b (str ''fields'') = Some (as_dict (filtered_response fr))
       \<and> body_get b (str ''detections'') = Some (as_dict (filtered_response fr))"
  using assms by (auto simp: box_success_def str_def)


lemma filtered_nonempty: "list_all (\<lambda>kv. snd kv \<noteq> []) (filtered_response fr)"
  by (simp add: filtered_response_def list_all_iff)





subsection \<open>The handlers on the sample data\<close>

lemma clean_text_sample: "clean_text sample_answer = sample_json"
  by (simp add: clean_text_def sample_answer_def sample_json_def str_def starts_with_def
      py_strip_def isspace_def)

lemma sample_answered: "model_answer sample_services sample_request prompt = Some sample_answer"
  by (simp add: model_answer_def sample_services_def sample_request_def str_def)

lemma json_loads_sample: "json_loads sample_services (clean_text sample_answer) = Inr sample_data"
  by (simp add: clean_text_sample sample_services_def)

lemma final_response_sample:
  "final_response sample_data =
     Inr [(str ''medicineName'', str ''panadol''), (str ''strength'', str ''5O0mg''),
          (str ''expiryDate'', str ''12/2025''), (str ''manufacturingDate'', str ''''),
          (str ''Medicine_Name'', str ''panadol''), (str ''Strength'', str ''5O0mg''),
          (str ''EXP_Date'', str ''12/2025''), (str ''MFG_Date'', str '''')]"
  by (simp add: final_response_def entry_def sample_data_def clean_text_value_def clean_date_def
      re_sub_def class_matches_def py_strip_def isspace_def str_def)

lemma predict_box_sample_body: "fst (predict_box sample_services sample_request) = (sample_body, 200)"
  using predict_box_answered[OF sample_answered] json_loads_sample
  by (simp add: final_response_sample box_success_def as_dict_def filtered_response_def
      sample_body_def)
     (simp add: str_def)

lemma fenced_answered:
  "model_answer fenced_services sample_request prompt = Some garbled_answer"
  by (simp add: model_answer_def fenced_services_def sample_services_def sample_request_def str_def)

lemma clean_text_garbled: "clean_text garbled_answer = str ''{medicines: Panadol 500mg''"
  by (simp add: clean_text_def garbled_answer_def garbled_inner_def str_def starts_with_def
      py_strip_def isspace_def)

lemma fenced_unparsed:
  "json_loads fenced_services (clean_text garbled_answer)
     = Inl (str ''Expecting value: line 1 column 1 (char 0)'')"
  by (simp add: clean_text_garbled fenced_services_def sample_services_def sample_json_def str_def)

lemma plain_unfenced: "\<not> contains (str ''Sorry, I cannot read this.'') (str ''```'')"
  by (simp add: str_def starts_with_Cons starts_with_Nil)

lemma plain_stripped:
  "py_strip (str ''Sorry, I cannot read this.'') = str ''Sorry, I cannot read this.''"
  by (simp add: py_strip_def isspace_def str_def)

lemma garbled_shape:
  "0x60 \<notin> set garbled_inner \<and> 0x60 \<notin> set (str ''\<newline>'')
   \<and> \<not> starts_with (str ''\<newline>'') (str ''json'')"
  by (simp add: garbled_inner_def str_def starts_with_Cons)

lemma garbled_stripped:
  "py_strip (garbled_inner @ str ''\<newline>'') = str ''{medicines: Panadol 500mg''"
  by (simp add: garbled_inner_def py_strip_def isspace_def str_def)

section \<open>Claims\<close>

text \<open>
  Claim C1. A POST to either route whose uploaded files hold no field named
  \<^verbatim>\<open>image\<close> is answered with status 400 and the body \<^verbatim>\<open>{"error": "No image"}\<close>, and the
  handler makes no outside call: the image is not decoded and the model is not asked.
\<close>

theorem missing_image_rejected:
  assumes "str ''image'' \<notin> fst ` set (files req)"
  shows "predict_prescription sv req
           = ((Json (PDict [(str ''error'', PStr (str ''No image''))]), 400), [])
       \<and> predict_box sv req
           = ((Json (PDict [(str ''error'', PStr (str ''No image''))]), 400), [])"
proof -
  from assms have "map_of (files req) (str ''image'') = None"
    by (simp add: map_of_eq_None_iff)
  then show ?thesis
    by (simp add: predict_prescription_def predict_box_def no_image_def)
qed

theorem missing_image_rejected_witness:
  "str ''image'' \<notin> fst ` set (files other_request)
   \<and> predict_prescription sample_services other_request
       = ((Json (PDict [(str ''error'', PStr (str ''No image''))]), 400), [])
   \<and> predict_box sample_services other_request
       = ((Json (PDict [(str ''error'', PStr (str ''No image''))]), 400), [])"
proof -
  have absent: "str ''image'' \<notin> fst ` set (files other_request)"
    by (simp add: other_request_def str_def)
  from missing_image_rejected[OF absent, of sample_services] absent show ?thesis by simp
qed




text \<open>
  Claim C3, as the code has it. The selector takes the first model yielded whose
  capabilities include content generation and whose name contains \<^verbatim>\<open>flash\<close>, however
  the enumeration ends after it. When no model yielded is such a one, it selects
  \<^verbatim>\<open>gemini-pro-vision\<close> if the enumeration ends normally and \<^verbatim>\<open>gemini-1.5-flash\<close> if it
  raises.
\<close>

theorem select_model_choice:
  "(case find preferred ms of
      Some m \<Rightarrow> model (select_model (ms, ending)) = name m
    | None \<Rightarrow> model (select_model (ms, None)) = str ''gemini-pro-vision''
              \<and> model (select_model (ms, Some failure)) = str ''gemini-1.5-flash'')"
proof (cases "find preferred ms")
  case None
  then show ?thesis by (simp add: select_model_def scan_models_find)
next
  case (Some m)
  then have "preferred m" by (auto simp: find_Some_iff)
  then have "name m \<noteq> []" by (rule preferred_named)
  with Some show ?thesis by (simp add: select_model_def scan_models_find)
qed

theorem select_model_choice_witness:
  "model (select_model ([embedding_model, flash_model], None)) = str ''models/gemini-1.5-flash''"
  using select_model_choice[where ms = "[embedding_model, flash_model]" and ending = None]
  by (simp add: preferred_def flash_model_def embedding_model_def str_def starts_with_def)

text \<open>
  Claim C3, as stated, fails: the two failure cases select different identifiers.
\<close>

theorem select_model_two_fallbacks:
  "model (select_model ([embedding_model], None)) = str ''gemini-pro-vision''
   \<and> model (select_model ([embedding_model], Some (str ''503 unavailable''))) = str ''gemini-1.5-flash''
   \<and> model (select_model ([embedding_model], None))
       \<noteq> model (select_model ([embedding_model], Some (str ''503 unavailable'')))"
  by (simp add: select_model_def embedding_model_def str_def)

text \<open>
  Claim C4. When the model answers and \<^verbatim>\<open>json.loads\<close> raises on the answer without its
  code fences, the prescription handler responds with status 200 and the body
  \<^verbatim>\<open>{"status": "success", "medicines": []}\<close>. What it parses holds no fence marker: it
  is the stripped answer when the answer has no fence, and for an answer with one fenced
  block (no other backquote, and no \<^verbatim>\<open>json\<close> right after the closing fence) it is the
  answer without the two markers, stripped.
\<close>

theorem prescription_parse_failure:
  assumes "model_answer sv req prescription_prompt = Some answer"
    and "json_loads sv (clean_text answer) = Inl e"
  shows "fst (predict_prescription sv req)
           = (Json (PDict [(str ''status'', PStr (str ''success'')),
                           (str ''medicines'', PList [])]), 200)
       \<and> last (snd (predict_prescription sv req)) = Json_loads (clean_text answer)
       \<and> \<not> contains (clean_text answer) (str ''```'')
       \<and> (\<not> contains plain (str ''```'') \<longrightarrow> clean_text plain = py_strip plain)
       \<and> (0x60 \<notin> set pre \<and> 0x60 \<notin> set inner \<and> 0x60 \<notin> set post
            \<and> \<not> starts_with post (str ''json'')
          \<longrightarrow> clean_text (pre @ str ''```json'' @ inner @ str ''```'' @ post)
                = py_strip (pre @ inner @ post))"
  using predict_prescription_answered[OF assms(1)] assms(2) clean_text_no_fence[of answer]
    clean_text_plain[of plain] clean_text_fenced[of pre inner post]
  by simp

theorem prescription_parse_failure_witness:
  "model_answer fenced_services sample_request prescription_prompt = Some garbled_answer
   \<and> json_loads fenced_services (clean_text garbled_answer)
       = Inl (str ''Expecting value: line 1 column 1 (char 0)'')
   \<and> fst (predict_prescription fenced_services sample_request)
       = (Json (PDict [(str ''status'', PStr (str ''success'')), (str ''medicines'', PList [])]), 200)
   \<and> last (snd (predict_prescription fenced_services sample_request))
       = Json_loads (str ''{medicines: Panadol 500mg'')
   \<and> \<not> contains (str ''Sorry, I cannot read this.'') (str ''```'')
   \<and> clean_text (str ''Sorry, I cannot read this.'') = str ''Sorry, I cannot read this.''
   \<and> 0x60 \<notin> set garbled_inner
   \<and> clean_text ([] @ str ''```json'' @ garbled_inner @ str ''```'' @ str ''\<newline>'')
       = str ''{medicines: Panadol 500mg''"
  using prescription_parse_failure[OF fenced_answered fenced_unparsed,
      of "str ''Sorry, I cannot read this.''" "[]" garbled_inner "str ''\<newline>''"]
    fenced_answered fenced_unparsed plain_unfenced garbled_shape
  by (simp add: clean_text_garbled plain_stripped garbled_stripped)



text \<open>
  Claim C6. On a string, \<open>clean_strength\<close> returns the empty string for the empty string
  and for the sentinel; otherwise it lowercases, removes the spaces, turns each \<^verbatim>\<open>o\<close>
  into \<^verbatim>\<open>0\<close> and each \<^verbatim>\<open>l\<close> into \<^verbatim>\<open>1\<close>, and uppercases. It maps \<^verbatim>\<open>500 MG\<close> and
  \<^verbatim>\<open>5O0mg\<close> to \<^verbatim>\<open>500MG\<close>.
\<close>

theorem clean_strength_described:
  "clean_strength U (PStr s) = Inr (clean_strength_spec U s)
   \<and> clean_strength U (PStr (str '''')) = Inr (str '''')
   \<and> clean_strength U (PStr (str ''Not Detected'')) = Inr (str '''')
   \<and> clean_strength U (PStr (str ''500 MG'')) = Inr (str ''500MG'')
   \<and> clean_strength U (PStr (str ''5O0mg'')) = Inr (str ''500MG'')"
  by (simp add: clean_strength_str strength_example_space strength_example_letter) (simp add: clean_strength_spec_def str_def)

theorem clean_strength_described_witness:
  "clean_strength ligature_tables (PStr (str ''10 ml'')) = Inr (str ''10M1'')"
  using clean_strength_described[of ligature_tables "str ''10 ml''"]
  by (simp add: clean_strength_spec_def str_def str_lower_def str_upper_def lower_at_def
      upper_of_def ascii_lower_def ascii_upper_def look_alike_def)

text \<open>
  Claim C7, as the code has it. On every ASCII string \<open>clean_strength\<close> is idempotent:
  it returns a string on which it returns that same string.
\<close>

theorem clean_strength_idempotent_ascii:
  assumes "list_all (\<lambda>c. c < 0x80) s"
  shows "\<exists>r. clean_strength U (PStr s) = Inr r \<and> clean_strength U (PStr r) = Inr r"
proof -
  have "clean_strength_spec U (clean_strength_spec U s) = clean_strength_spec U s"
    by (rule settled_fixed) (rule clean_strength_spec_settled[OF assms])
  then show ?thesis by (simp add: clean_strength_str)
qed

theorem clean_strength_idempotent_ascii_witness:
  "list_all (\<lambda>c. c < 0x80) (str ''5O0 mg'')
   \<and> (\<exists>r. clean_strength ligature_tables (PStr (str ''5O0 mg'')) = Inr r
          \<and> clean_strength ligature_tables (PStr r) = Inr r)"
proof -
  have ascii: "list_all (\<lambda>c. c < 0x80) (str ''5O0 mg'')" by (simp add: str_def)
  from clean_strength_idempotent_ascii[OF ascii, of ligature_tables] ascii show ?thesis by simp
qed

text \<open>
  Claim C7, as stated, fails beyond ASCII: the ligature U+FB02 is uppercased to
  \<^verbatim>\<open>FL\<close>, which a second application turns into \<^verbatim>\<open>F1\<close>.
\<close>

theorem clean_strength_ligature:
  "clean_strength ligature_tables (PStr [0xFB02]) = Inr (str ''FL'')
   \<and> clean_strength ligature_tables (PStr (str ''FL'')) = Inr (str ''F1'')
   \<and> str ''F1'' \<noteq> str ''FL''"
  by (simp add: ligature_uppercased ligature_result_changes) (simp add: str_def)

text \<open>
  Claim C8. On a string, \<open>clean_date\<close> returns the empty string for the empty string and
  for the sentinel; otherwise it returns the string without the code points that are
  neither a digit nor one of the separators \<^verbatim>\<open>/\<close>, \<^verbatim>\<open>.\<close> and \<^verbatim>\<open>-\<close>. It maps
  \<^verbatim>\<open>Exp: 12/2025!!\<close> to \<^verbatim>\<open>12/2025\<close>.
\<close>

theorem clean_date_described:
  "clean_date (PStr s) = Inr (clean_date_spec s)
   \<and> clean_date (PStr (str '''')) = Inr (str '''')
   \<and> clean_date (PStr (str ''Not Detected'')) = Inr (str '''')
   \<and> clean_date (PStr (str ''Exp: 12/2025!!'')) = Inr (str ''12/2025'')"
  by (simp add: clean_date_str clean_date_example) (simp add: clean_date_spec_def str_def)

theorem clean_date_described_witness:
  "clean_date (PStr (str ''MFG 03-2024'')) = Inr (str ''03-2024'')"
  using clean_date_described[of "str ''MFG 03-2024''"]
  by (simp add: clean_date_spec_def date_char_def str_def)

text \<open>
  Claim C9. In every successful response of the box handler, \<^verbatim>\<open>fields\<close> and
  \<^verbatim>\<open>detections\<close> are dicts of strings that bind no key to the empty string.
\<close>

theorem box_without_empty_values:
  assumes "fst (predict_box sv req) = (b, 200)"
  shows "\<exists>fs. body_get b (str ''fields'') = Some (as_dict fs)
            \<and> body_get b (str ''detections'') = Some (as_dict fs)
            \<and> list_all (\<lambda>kv. snd kv \<noteq> str '''') fs"
proof -
  from predict_box_200[OF assms] obtain fr where "(b, 200) = box_success fr" by blast
  from box_success_body[OF this] filtered_nonempty[of fr] show ?thesis
    by (auto simp: str_def)
qed

theorem box_without_empty_values_witness:
  "fst (predict_box sample_services sample_request) = (sample_body, 200)
   \<and> (\<exists>fs. body_get sample_body (str ''fields'') = Some (as_dict fs)
            \<and> body_get sample_body (str ''detections'') = Some (as_dict fs)
            \<and> list_all (\<lambda>kv. snd kv \<noteq> str '''') fs)"
  using box_without_empty_values[OF predict_box_sample_body] predict_box_sample_body by simp

text \<open>
  Claim C10. In every successful response of the box handler, \<^verbatim>\<open>fields\<close> and
  \<^verbatim>\<open>detections\<close> are both present and equal.
\<close>

theorem box_fields_equal_detections:
  assumes "fst (predict_box sv req) = (b, 200)"
  shows "body_get b (str ''fields'') = body_get b (str ''detections'')
       \<and> body_get b (str ''fields'') \<noteq> None"
proof -
  from predict_box_200[OF assms] obtain fr where "(b, 200) = box_success fr" by blast
  from box_success_body[OF this] show ?thesis by simp
qed

theorem box_fields_equal_detections_witness:
  "fst (predict_box sample_services sample_request) = (sample_body, 200)
   \<and> body_get sample_body (str ''fields'') = body_get sample_body (str ''detections'')
   \<and> body_get sample_body (str ''fields'') \<noteq> None"
  using box_fields_equal_detections[OF predict_box_sample_body] predict_box_sample_body by blast

end
